theory Spec2Isabelle
  imports Complex_Main
begin

section \<open>The detection viewer: data model\<close>

text \<open>
  The repository holds two variants of one React component \<open>App\<close>: \<open>src/App.js\<close> posts
  the image to a REST endpoint \<open>/predict\<close>; the second file calls a hosted model through
  a client library. Both keep the same pieces of state and share \<open>handleFileSelect\<close>,
  \<open>onImageLoad\<close>, \<open>getScaleFactors\<close> and the rendering of the overlay.

  Conventions of the embedding:
  \<^item> a JavaScript Number is a rational (\<open>rat\<close>), every finite double being one; where
    the code can produce a value that is not a finite number the result is \<open>None\<close>;
  \<^item> the product that \<open>toFixed\<close> prints is rounded to the nearest double as the code
    rounds it (\<open>roundDouble\<close>), since the digit printed depends on it; the arithmetic of
    the rectangles is kept exact, and what is proved of it uses no property of the
    arithmetic;
  \<^item> a value that comes from the network is a \<open>jsval\<close>, the JSON values together with
    \<open>undefined\<close>; an object is the list of its properties, read by name from the front;
  \<^item> \<open>null\<close> in a state variable is \<open>None\<close>;
  \<^item> an exception is the \<open>Inl\<close> branch of a sum;
  \<^item> the browser (blob URL registry, network) is an explicit record that the handlers
    thread through.
\<close>

datatype jsval =
    JUndefined
  | JNull
  | JBool bool
  | JNum rat
  | JStr string
  | JArr "jsval list"
  | JObj "(string \<times> jsval) list"

text \<open>
  A thrown value: a \<open>TypeError\<close> of the engine or another error object, each with its
  message.
\<close>

datatype exn = TypeError string | Error string

text \<open>A \<open>File\<close> of the file picker, known by its name.\<close>

datatype js_file = File string

record dimensions =
  width :: rat
  height :: rat

record app_state =
  imageFile :: "js_file option"
  imagePreview :: "string option"
  detections :: jsval
  isLoading :: bool
  error :: "string option"
  originalImageDimensions :: "dimensions option"
  displayedImageDimensions :: "dimensions option"

text \<open>The client variant holds the connected client as one more state variable.\<close>

datatype gradio_app = GradioApp string

record client_state = app_state +
  client :: "gradio_app option"

text \<open>
  The browser: how many blob URLs \<open>URL.createObjectURL\<close> has handed out, the log of the
  calls of \<open>URL.revokeObjectURL\<close>, and the log of the detection requests sent (each with
  the image it carries).
\<close>

record browser =
  blobCount :: nat
  revoked :: "string list"
  requests :: "js_file list"

definition initial :: app_state where
  "initial = \<lparr> imageFile = None, imagePreview = None, detections = JArr [],
     isLoading = False, error = None,
     originalImageDimensions = None, displayedImageDimensions = None \<rparr>"

definition initial_client :: client_state where
  "initial_client = \<lparr> imageFile = None, imagePreview = None, detections = JArr [],
     isLoading = False, error = None,
     originalImageDimensions = None, displayedImageDimensions = None, client = None \<rparr>"

definition browser0 :: browser where
  "browser0 = \<lparr> blobCount = 0, revoked = [], requests = [] \<rparr>"

section \<open>Decimal numerals and strings\<close>

definition digitChar :: "nat \<Rightarrow> char" where
  "digitChar d = ''0123456789'' ! d"

fun showNat :: "nat \<Rightarrow> string" where
  "showNat n = (if n < 10 then [digitChar n] else showNat (n div 10) @ [digitChar (n mod 10)])"

declare showNat.simps [simp del]

definition startsWith :: "string \<Rightarrow> string \<Rightarrow> bool" where
  "startsWith s p = (take (length p) s = p)"

section \<open>Blob URLs\<close>

text \<open>
  \<open>URL.createObjectURL\<close> returns a new URL of the scheme \<open>blob:\<close> at every call; the
  model numbers them. \<open>URL.revokeObjectURL\<close> is recorded in the log.
\<close>

definition blobUrl :: "nat \<Rightarrow> string" where
  "blobUrl n = ''blob:'' @ showNat n"

definition createObjectURL :: "js_file \<Rightarrow> browser \<Rightarrow> string \<times> browser" where
  "createObjectURL f br = (blobUrl (blobCount br), br\<lparr>blobCount := Suc (blobCount br)\<rparr>)"

definition revokeObjectURL :: "string \<Rightarrow> browser \<Rightarrow> browser" where
  "revokeObjectURL u br = br\<lparr>revoked := revoked br @ [u]\<rparr>"

text \<open>
  The guarded release that both \<open>handleFileSelect\<close> and the effect's cleanup contain:
  \<open>if (imagePreview && imagePreview.startsWith('blob:')) URL.revokeObjectURL(imagePreview)\<close>.
\<close>

definition revokeIfBlob :: "string option \<Rightarrow> browser \<Rightarrow> browser" where
  "revokeIfBlob preview br =
     (case preview of
        None \<Rightarrow> br
      | Some u \<Rightarrow> if u \<noteq> [] \<and> startsWith u ''blob:'' then revokeObjectURL u br else br)"

section \<open>Image intake\<close>

text \<open>
  \<open>handleFileSelect\<close>: the event carries the picker's file list; \<open>files[0]\<close> of an empty
  list is \<open>undefined\<close> and the handler returns at once.
\<close>

definition handleFileSelect ::
  "js_file list \<Rightarrow> 'a app_state_scheme \<times> browser \<Rightarrow> 'a app_state_scheme \<times> browser" where
  "handleFileSelect files w =
     (case files of
        [] \<Rightarrow> w
      | f # _ \<Rightarrow>
          (let st = fst w; br = snd w;
               st1 = st\<lparr>detections := JArr [], error := None,
                        originalImageDimensions := None, displayedImageDimensions := None\<rparr>;
               br1 = revokeIfBlob (imagePreview st) br;
               (u, br2) = createObjectURL f br1
           in (st1\<lparr>imageFile := Some f, imagePreview := Some u\<rparr>, br2)))"

text \<open>\<open>onImageLoad\<close> and the resize handler record the sizes the image element reports.\<close>

definition onImageLoad ::
  "dimensions \<Rightarrow> dimensions \<Rightarrow> 'a app_state_scheme \<Rightarrow> 'a app_state_scheme" where
  "onImageLoad natural offset st =
     st\<lparr>originalImageDimensions := Some natural, displayedImageDimensions := Some offset\<rparr>"

definition handleResize ::
  "dimensions option \<Rightarrow> 'a app_state_scheme \<Rightarrow> 'a app_state_scheme" where
  "handleResize img st =
     (case img of None \<Rightarrow> st | Some offset \<Rightarrow> st\<lparr>displayedImageDimensions := Some offset\<rparr>)"

section \<open>Detection client: the part that runs before the request is awaited\<close>

text \<open>
  \<open>detectObjects\<close> is an async function. Up to its \<open>await\<close> it runs inside the click
  handler: the guard, three state updates, and the call that sends the request. The rest
  runs when the request settles and is modelled apart (\<open>detectObjects_resume\<close>).
\<close>

definition detectObjects ::
  "'a app_state_scheme \<times> browser \<Rightarrow> 'a app_state_scheme \<times> browser" where
  "detectObjects w =
     (let st = fst w; br = snd w in
      case imageFile st of
        None \<Rightarrow> (st\<lparr>error := Some ''Please select an image first.''\<rparr>, br)
      | Some f \<Rightarrow>
          (st\<lparr>isLoading := True, detections := JArr [], error := None\<rparr>,
           br\<lparr>requests := requests br @ [f]\<rparr>))"

definition detectObjects_client ::
  "'a client_state_scheme \<times> browser \<Rightarrow> 'a client_state_scheme \<times> browser" where
  "detectObjects_client w =
     (let st = fst w; br = snd w;
          refused = (st\<lparr>error := Some (if client st = None then ''Client not ready. Please wait.''
                                         else ''Please select an image first.'')\<rparr>, br)
      in case imageFile st of
           None \<Rightarrow> refused
         | Some f \<Rightarrow>
             (case client st of
                None \<Rightarrow> refused
              | Some app \<Rightarrow>
                  (st\<lparr>isLoading := True, detections := JArr [], error := None\<rparr>,
                   br\<lparr>requests := requests br @ [f]\<rparr>)))"

section \<open>JavaScript values as the code reads them\<close>

text \<open>
  Reading a property of \<open>undefined\<close> or \<open>null\<close> throws a \<open>TypeError\<close>. Its message is
  worded as V8 (Chrome, Node) words it, \<open>Cannot read properties of undefined (reading 'k')\<close>;
  other engines word it differently.
\<close>

definition cannotRead :: "jsval \<Rightarrow> string \<Rightarrow> exn" where
  "cannotRead v k =
     TypeError (''Cannot read properties of ''
        @ (case v of JNull \<Rightarrow> ''null'' | _ \<Rightarrow> ''undefined'')
        @ '' (reading '' @ [CHR 0x27] @ k @ [CHR 0x27] @ '')'')"

text \<open>
  On any other value a property that is absent reads as \<open>undefined\<close>. \<open>getField\<close> is the
  read of a named property, for the names the code uses on network values (\<open>detections\<close>,
  \<open>class_name\<close>, \<open>confidence\<close>, \<open>bbox\<close>, \<open>data\<close>, \<open>box\<close>, \<open>name\<close>, \<open>x1\<close> ... \<open>y2\<close>):
  none of them is a property of a built-in prototype, so only an object can hold one.
\<close>

fun getField :: "jsval \<Rightarrow> string \<Rightarrow> exn + jsval" where
  "getField JUndefined k = Inl (cannotRead JUndefined k)"
| "getField JNull k = Inl (cannotRead JNull k)"
| "getField (JObj kvs) k = Inr (case map_of kvs k of None \<Rightarrow> JUndefined | Some v \<Rightarrow> v)"
| "getField v k = Inr JUndefined"

text \<open>
  \<open>v[i]\<close> with a constant index: an element of an array, a one-character string of a
  string, the property named by the index of an object.
\<close>

fun getIndex :: "jsval \<Rightarrow> nat \<Rightarrow> exn + jsval" where
  "getIndex JUndefined i = Inl (cannotRead JUndefined (showNat i))"
| "getIndex JNull i = Inl (cannotRead JNull (showNat i))"
| "getIndex (JArr xs) i = Inr (if i < length xs then xs ! i else JUndefined)"
| "getIndex (JStr s) i = Inr (if i < length s then JStr [s ! i] else JUndefined)"
| "getIndex (JObj kvs) i = Inr (case map_of kvs (showNat i) of None \<Rightarrow> JUndefined | Some v \<Rightarrow> v)"
| "getIndex v i = Inr JUndefined"

text \<open>Sequencing of steps that may throw: the first exception ends the computation.\<close>

definition bindE :: "'e + 'a \<Rightarrow> ('a \<Rightarrow> 'e + 'b) \<Rightarrow> 'e + 'b" where
  "bindE m f = (case m of Inl e \<Rightarrow> Inl e | Inr x \<Rightarrow> f x)"

text \<open>An array's \<open>map\<close> with a callback that may throw: the first exception ends it.\<close>

fun mapE :: "('a \<Rightarrow> 'e + 'b) \<Rightarrow> 'a list \<Rightarrow> 'e + 'b list" where
  "mapE f [] = Inr []"
| "mapE f (x # xs) = bindE (f x) (\<lambda>y. bindE (mapE f xs) (\<lambda>ys. Inr (y # ys)))"

text \<open>
  \<open>v.map(f)\<close>: only an array has the method; on \<open>undefined\<close> and \<open>null\<close> the read of
  \<open>map\<close> throws, on every other value the call of a non-function throws, with the
  message \<open>callee is not a function\<close>, where \<open>callee\<close> is the text of the called
  expression.
\<close>

fun callMap :: "string \<Rightarrow> jsval \<Rightarrow> (jsval \<Rightarrow> exn + jsval) \<Rightarrow> exn + jsval" where
  "callMap callee (JArr xs) f = bindE (mapE f xs) (\<lambda>ys. Inr (JArr ys))"
| "callMap callee JUndefined f = Inl (cannotRead JUndefined ''map'')"
| "callMap callee JNull f = Inl (cannotRead JNull ''map'')"
| "callMap callee v f = Inl (TypeError (callee @ '' is not a function''))"

fun truthy :: "jsval \<Rightarrow> bool" where
  "truthy JUndefined = False"
| "truthy JNull = False"
| "truthy (JBool b) = b"
| "truthy (JNum n) = (n \<noteq> 0)"
| "truthy (JStr s) = (s \<noteq> [])"
| "truthy (JArr xs) = True"
| "truthy (JObj kvs) = True"

text \<open>\<open>err.message\<close>.\<close>

fun message :: "exn \<Rightarrow> string" where
  "message (TypeError m) = m"
| "message (Error m) = m"

section \<open>Detection client: the part that runs when the request settles\<close>

text \<open>
  What the REST variant awaits: \<open>fetch\<close> rejects (a transport error), or resolves to a
  response; \<open>response.json()\<close> rejects (the body is not JSON) or resolves to a value.
\<close>

datatype json_outcome = JsonRejects exn | JsonResolves jsval

record response =
  ok :: bool
  status :: nat
  statusText :: string
  json :: json_outcome

datatype fetch_outcome = FetchRejects exn | FetchResolves response

text \<open>The callback of \<open>result.detections.map\<close> (App.js, lines 84 to 93).\<close>

definition formatDetection :: "jsval \<Rightarrow> exn + jsval" where
  "formatDetection det =
     bindE (getField det ''class_name'') (\<lambda>class_name.
     bindE (getField det ''confidence'') (\<lambda>confidence.
     bindE (getField det ''bbox'') (\<lambda>bbox.
     bindE (getIndex bbox 0) (\<lambda>b0.
     bindE (getIndex bbox 1) (\<lambda>b1.
     bindE (getIndex bbox 2) (\<lambda>b2.
     bindE (getIndex bbox 3) (\<lambda>b3.
       Inr (JObj [(''name'', class_name), (''confidence'', confidence),
                  (''box'', JObj [(''x1'', b0), (''y1'', b1), (''x2'', b2), (''y2'', b3)])]))))))))"

text \<open>The body of the \<open>try\<close> block up to \<open>formattedDetections\<close> (lines 72 to 93).\<close>

definition tryFetch :: "fetch_outcome \<Rightarrow> exn + jsval" where
  "tryFetch out =
     (case out of
        FetchRejects e \<Rightarrow> Inl e
      | FetchResolves r \<Rightarrow>
          if ok r then
            (case json r of
               JsonRejects e \<Rightarrow> Inl e
             | JsonResolves result \<Rightarrow>
                 bindE (getField result ''detections'')
                   (\<lambda>ds. callMap ''result.detections.map'' ds formatDetection))
          else Inl (Error (''API Error: '' @ showNat (status r) @ '' '' @ statusText r)))"

text \<open>
  The \<open>catch\<close> block's message: \<open>err.message || "An unknown error occurred."\<close>; an empty
  message is falsy.
\<close>

definition failureText :: "exn \<Rightarrow> string" where
  "failureText e =
     ''Failed to detect objects: '' @
     (if message e = [] then ''An unknown error occurred.'' else message e)"

text \<open>
  The continuation of \<open>detectObjects\<close> after the await, run on the state as it is when
  the request settles: \<open>setDetections\<close> on success, \<open>setError\<close> in the \<open>catch\<close> block,
  \<open>setIsLoading(false)\<close> in the \<open>finally\<close> block.
\<close>

definition detectObjects_resume ::
  "fetch_outcome \<Rightarrow> 'a app_state_scheme \<Rightarrow> 'a app_state_scheme" where
  "detectObjects_resume out st =
     (case tryFetch out of
        Inr formattedDetections \<Rightarrow>
          st\<lparr>detections := (if truthy formattedDetections then formattedDetections else JArr [])\<rparr>
      | Inl err \<Rightarrow> st\<lparr>error := Some (failureText err)\<rparr>)
     \<lparr>isLoading := False\<rparr>"

text \<open>
  The client variant awaits \<open>client.predict\<close>, which rejects or resolves to a value, and
  stores \<open>result.data[0] || []\<close>.
\<close>

datatype predict_outcome = PredictRejects exn | PredictResolves jsval

definition tryPredict :: "predict_outcome \<Rightarrow> exn + jsval" where
  "tryPredict out =
     (case out of
        PredictRejects e \<Rightarrow> Inl e
      | PredictResolves result \<Rightarrow>
          bindE (getField result ''data'') (\<lambda>d. getIndex d 0))"

definition detectObjects_client_resume ::
  "predict_outcome \<Rightarrow> 'a client_state_scheme \<Rightarrow> 'a client_state_scheme" where
  "detectObjects_client_resume out st =
     (case tryPredict out of
        Inr detectionData \<Rightarrow>
          st\<lparr>detections := (if truthy detectionData then detectionData else JArr [])\<rparr>
      | Inl err \<Rightarrow> st\<lparr>error := Some (failureText err)\<rparr>)
     \<lparr>isLoading := False\<rparr>"

text \<open>The effect that connects the client when the component mounts.\<close>

definition connectClient_resume ::
  "exn + gradio_app \<Rightarrow> 'a client_state_scheme \<Rightarrow> 'a client_state_scheme" where
  "connectClient_resume out st =
     (case out of
        Inr app \<Rightarrow> st\<lparr>client := Some app\<rparr>
      | Inl err \<Rightarrow>
          st\<lparr>error := Some ''Failed to connect to the detection service. Please refresh the page.''\<rparr>)"

section \<open>Overlay renderer\<close>

text \<open>
  A quotient of two numbers; \<open>None\<close> when the divisor is zero, where JavaScript yields
  \<open>Infinity\<close> or \<open>NaN\<close>.
\<close>

definition jsDivide :: "rat \<Rightarrow> rat \<Rightarrow> rat option" where
  "jsDivide a b = (if b = 0 then None else Some (a / b))"

record scaleFactors =
  scaleX :: "rat option"
  scaleY :: "rat option"

definition getScaleFactors :: "'a app_state_scheme \<Rightarrow> scaleFactors option" where
  "getScaleFactors st =
     (case originalImageDimensions st of
        None \<Rightarrow> None
      | Some orig \<Rightarrow>
          (case displayedImageDimensions st of
             None \<Rightarrow> None
           | Some disp \<Rightarrow>
               Some \<lparr> scaleX = jsDivide (width disp) (width orig),
                      scaleY = jsDivide (height disp) (height orig) \<rparr>))"

text \<open>
  What rendering can end in besides a view: an exception thrown while rendering, or a
  value outside this model (the conversion of a string, an array or an object to a
  number, the printing of a number that is not a one-decimal numeral).
\<close>

datatype render_error = RenderThrows | Unmodelled

definition thrown :: "exn + 'a \<Rightarrow> render_error + 'a" where
  "thrown m = (case m of Inl e \<Rightarrow> Inl RenderThrows | Inr x \<Rightarrow> Inr x)"

text \<open>
  The operand of an arithmetic operator as a number: \<open>None\<close> is a value that is not a
  finite number (\<open>undefined\<close> converts to \<open>NaN\<close>).
\<close>

fun toNumber :: "jsval \<Rightarrow> render_error + rat option" where
  "toNumber (JNum n) = Inr (Some n)"
| "toNumber JUndefined = Inr None"
| "toNumber JNull = Inr (Some 0)"
| "toNumber (JBool b) = Inr (Some (if b then 1 else 0))"
| "toNumber v = Inl Unmodelled"

definition jsTimes :: "rat option \<Rightarrow> rat option \<Rightarrow> rat option" where
  "jsTimes a b =
     (case a of None \<Rightarrow> None | Some x \<Rightarrow> (case b of None \<Rightarrow> None | Some y \<Rightarrow> Some (x * y)))"

definition jsMinus :: "rat option \<Rightarrow> rat option \<Rightarrow> rat option" where
  "jsMinus a b =
     (case a of None \<Rightarrow> None | Some x \<Rightarrow> (case b of None \<Rightarrow> None | Some y \<Rightarrow> Some (x - y)))"

text \<open>
  The \<open>style\<close> of a rectangle: \<open>left\<close>, \<open>top\<close>, \<open>width\<close> and \<open>height\<close>, each a number
  of pixels (the code appends \<open>px\<close>); the border is the same for every rectangle.
\<close>

record box_style =
  style_left :: "rat option"
  style_top :: "rat option"
  style_width :: "rat option"
  style_height :: "rat option"

definition boxStyle :: "scaleFactors \<Rightarrow> jsval \<Rightarrow> render_error + box_style" where
  "boxStyle sf box =
     bindE (thrown (getField box ''x1'')) (\<lambda>bx1.
     bindE (toNumber bx1) (\<lambda>x1.
     bindE (thrown (getField box ''y1'')) (\<lambda>by1.
     bindE (toNumber by1) (\<lambda>y1.
     bindE (thrown (getField box ''x2'')) (\<lambda>bx2.
     bindE (toNumber bx2) (\<lambda>x2.
     bindE (thrown (getField box ''y2'')) (\<lambda>by2.
     bindE (toNumber by2) (\<lambda>y2.
       Inr \<lparr> style_left = jsTimes x1 (scaleX sf),
             style_top = jsTimes y1 (scaleY sf),
             style_width = jsTimes (jsMinus x2 x1) (scaleX sf),
             style_height = jsTimes (jsMinus y2 y1) (scaleY sf) \<rparr>))))))))"

text \<open>
  The product of two doubles is the double nearest to the exact product (IEEE 754
  binary64, round to nearest, ties to even). \<open>binaryExponent x\<close> is the \<open>e\<close> with
  \<open>2^e \<le> |x| < 2^(e+1)\<close>; a double has 53 significant bits, so near \<open>x\<close> the doubles are
  the multiples of \<open>2^(e-52)\<close>, and of \<open>2^(-1074)\<close> below the normal range. A result of
  \<open>2^1024\<close> or more is \<open>Infinity\<close>, here \<open>None\<close>. Negative zero is not told from zero.
\<close>

function bitLength :: "int \<Rightarrow> nat" where
  "bitLength n = (if n \<le> 0 then 0 else Suc (bitLength (n div 2)))"
  by pat_completeness auto
termination
  by (relation "measure nat") auto

declare bitLength.simps [simp del]

definition binaryExponent :: "rat \<Rightarrow> int" where
  "binaryExponent x =
     (let (p, q) = quotient_of \<bar>x\<bar>;
          d = int (bitLength p) - int (bitLength q)
      in if \<bar>x\<bar> < 2 powi d then d - 1 else d)"

definition roundHalfEven :: "rat \<Rightarrow> int" where
  "roundHalfEven r =
     (let f = \<lfloor>r\<rfloor>; t = r - of_int f
      in if t < 1 / 2 then f else if 1 / 2 < t then f + 1 else if even f then f else f + 1)"

definition roundDouble :: "rat \<Rightarrow> rat option" where
  "roundDouble x =
     (if x = 0 then Some 0
      else
        (let e = max (binaryExponent x) (- 1022);
             quantum = 2 powi (e - 52);
             y = of_int (roundHalfEven (\<bar>x\<bar> / quantum)) * quantum
         in if 2 powi 1024 \<le> y then None else Some (sgn x * y)))"

definition doubleTimes :: "rat option \<Rightarrow> rat option \<Rightarrow> rat option" where
  "doubleTimes a b =
     (case a of None \<Rightarrow> None | Some x \<Rightarrow> (case b of None \<Rightarrow> None | Some y \<Rightarrow> roundDouble (x * y)))"

text \<open>
  \<open>x.toFixed(1)\<close> as ECMAScript defines it: the sign, then the integer \<open>n\<close> for which
  \<open>n / 10\<close> is nearest to \<open>|x|\<close> (the larger of two), written in decimal, padded to two
  digits, with a point before the last digit. From \<open>10^21\<close> on the result is in
  exponent notation.
\<close>

definition toFixed1 :: "rat option \<Rightarrow> render_error + string" where
  "toFixed1 v =
     (case v of
        None \<Rightarrow> Inl Unmodelled
      | Some x \<Rightarrow>
          if 10 ^ 21 \<le> \<bar>x\<bar> then Inl Unmodelled
          else
            (let n = nat \<lfloor>\<bar>x\<bar> * 10 + 1 / 2\<rfloor>;
                 m = showNat n;
                 m = (if length m \<le> 1 then replicate (2 - length m) (CHR ''0'') @ m else m);
                 k = length m
             in Inr ((if x < 0 then ''-'' else []) @ take (k - 1) m @ ''.'' @ drop (k - 1) m)))"

text \<open>
  A value as the child of an element: a string is its text; \<open>undefined\<close>, \<open>null\<close> and
  the booleans render nothing.
\<close>

fun childText :: "jsval \<Rightarrow> render_error + string" where
  "childText (JStr s) = Inr s"
| "childText JUndefined = Inr []"
| "childText JNull = Inr []"
| "childText (JBool b) = Inr []"
| "childText v = Inl Unmodelled"

text \<open>
  The label: \<open>{name} ({(confidence * 100).toFixed(1)}%)\<close>. The product is the double
  that the multiplication yields.
\<close>

definition labelText :: "jsval \<Rightarrow> jsval \<Rightarrow> render_error + string" where
  "labelText name confidence =
     bindE (childText name) (\<lambda>n.
     bindE (toNumber confidence) (\<lambda>c.
     bindE (toFixed1 (doubleTimes c (Some 100))) (\<lambda>p.
       Inr (n @ '' ('' @ p @ ''%)''))))"

text \<open>
  The callback of \<open>detections.map\<close> in the view: the destructuring of the detection, the
  style, the labelled rectangle.
\<close>

definition renderDetection :: "scaleFactors \<Rightarrow> jsval \<Rightarrow> render_error + box_style \<times> string" where
  "renderDetection sf det =
     bindE (thrown (getField det ''box'')) (\<lambda>box.
     bindE (thrown (getField det ''name'')) (\<lambda>name.
     bindE (thrown (getField det ''confidence'')) (\<lambda>confidence.
     bindE (boxStyle sf box) (\<lambda>style.
     bindE (labelText name confidence) (\<lambda>label.
       Inr (style, label))))))"

text \<open>
  The rectangles of the view: none without a preview, none without scale factors
  (\<open>scaleFactors && ...\<close>), otherwise one for each detection. A stored value that is
  not an array has no \<open>map\<close> method.
\<close>

definition renderOverlays :: "'a app_state_scheme \<Rightarrow> render_error + (box_style \<times> string) list" where
  "renderOverlays st =
     (case imagePreview st of
        None \<Rightarrow> Inr []
      | Some u \<Rightarrow>
          if u = [] then Inr []
          else
            (case getScaleFactors st of
               None \<Rightarrow> Inr []
             | Some sf \<Rightarrow>
                 (case detections st of
                    JArr ds \<Rightarrow> mapE (renderDetection sf) ds
                  | _ \<Rightarrow> Inl RenderThrows)))"

text \<open>Whether the JSON panel is in the view: \<open>detections && detections.length > 0\<close>.\<close>

definition jsonPanelShown :: "'a app_state_scheme \<Rightarrow> render_error + bool" where
  "jsonPanelShown st =
     (case detections st of
        JArr xs \<Rightarrow> Inr (xs \<noteq> [])
      | JStr s \<Rightarrow> Inr (s \<noteq> [])
      | JObj kvs \<Rightarrow>
          (case map_of kvs ''length'' of
             None \<Rightarrow> Inr False
           | Some v \<Rightarrow>
               bindE (toNumber v) (\<lambda>n. Inr (case n of None \<Rightarrow> False | Some x \<Rightarrow> 0 < x)))
      | _ \<Rightarrow> Inr False)"

text \<open>The \<open>disabled\<close> attribute of the detect button, in each variant.\<close>

definition detectDisabled :: "'a app_state_scheme \<Rightarrow> bool" where
  "detectDisabled st = (imageFile st = None \<or> isLoading st)"

definition detectDisabled_client :: "'a client_state_scheme \<Rightarrow> bool" where
  "detectDisabled_client st = (imageFile st = None \<or> isLoading st \<or> client st = None)"

section \<open>The effect on the preview and the component's lifetime\<close>

text \<open>
  The effect with the dependency \<open>[imagePreview]\<close> returns a cleanup that releases the
  preview of the render that set it up. React runs the cleanup of an effect after a
  render in which one of its dependencies changed, and when the component unmounts.
\<close>

definition effectCleanup :: "string option \<Rightarrow> browser \<Rightarrow> browser" where
  "effectCleanup preview br = revokeIfBlob preview br"

definition rerender ::
  "string option \<Rightarrow> 'a app_state_scheme \<times> browser \<Rightarrow> 'a app_state_scheme \<times> browser" where
  "rerender previous w =
     (if imagePreview (fst w) = previous then w else (fst w, effectCleanup previous (snd w)))"

text \<open>A selection in the file picker: the handler, then the render that follows it.\<close>

definition selectImage ::
  "js_file list \<Rightarrow> 'a app_state_scheme \<times> browser \<Rightarrow> 'a app_state_scheme \<times> browser" where
  "selectImage files w = rerender (imagePreview (fst w)) (handleFileSelect files w)"

fun selectImages ::
  "js_file list list \<Rightarrow> 'a app_state_scheme \<times> browser \<Rightarrow> 'a app_state_scheme \<times> browser" where
  "selectImages [] w = w"
| "selectImages (files # rest) w = selectImages rest (selectImage files w)"

definition unmount :: "'a app_state_scheme \<times> browser \<Rightarrow> browser" where
  "unmount w = effectCleanup (imagePreview (fst w)) (snd w)"

text \<open>
  A whole life of the component: mounted in its initial state, a sequence of
  selections, then unmounted. The result is the browser record at the end.
\<close>

definition lifetime :: "js_file list list \<Rightarrow> browser" where
  "lifetime events = unmount (selectImages events (initial, browser0))"

section \<open>Notions used to state the properties\<close>

text \<open>
  The Detection of the data model, and the object that holds it in the canonical shape
  \<open>{name, confidence, box: {x1, y1, x2, y2}}\<close>: the shape that \<open>formatDetection\<close>
  builds and that the view reads.
\<close>

record detection =
  det_name :: string
  det_confidence :: rat
  box_x1 :: rat
  box_y1 :: rat
  box_x2 :: rat
  box_y2 :: rat

definition canonicalShape ::
  "jsval \<Rightarrow> jsval \<Rightarrow> jsval \<Rightarrow> jsval \<Rightarrow> jsval \<Rightarrow> jsval \<Rightarrow> jsval" where
  "canonicalShape n c a1 b1 a2 b2 =
     JObj [(''name'', n), (''confidence'', c),
           (''box'', JObj [(''x1'', a1), (''y1'', b1), (''x2'', a2), (''y2'', b2)])]"

definition encodeDetection :: "detection \<Rightarrow> jsval" where
  "encodeDetection d =
     canonicalShape (JStr (det_name d)) (JNum (det_confidence d))
       (JNum (box_x1 d)) (JNum (box_y1 d)) (JNum (box_x2 d)) (JNum (box_y2 d))"

text \<open>The same detection as the REST service sends it, with the box as a 4-element array.\<close>

definition arrayRecord :: "detection \<Rightarrow> jsval" where
  "arrayRecord d =
     JObj [(''class_name'', JStr (det_name d)), (''confidence'', JNum (det_confidence d)),
           (''bbox'', JArr [JNum (box_x1 d), JNum (box_y1 d), JNum (box_x2 d), JNum (box_y2 d)])]"






text \<open>
  The race of a request with a new selection: the request is sent, a file is selected
  while it is in flight, then the request settles.
\<close>

definition supersededRun ::
  "js_file list \<Rightarrow> fetch_outcome \<Rightarrow> 'a app_state_scheme \<times> browser \<Rightarrow> 'a app_state_scheme" where
  "supersededRun files out w = detectObjects_resume out (fst (handleFileSelect files (detectObjects w)))"

definition supersededRun_client ::
  "js_file list \<Rightarrow> predict_outcome \<Rightarrow> 'a client_state_scheme \<times> browser \<Rightarrow> 'a client_state_scheme" where
  "supersededRun_client files out w =
     detectObjects_client_resume out (fst (handleFileSelect files (detectObjects_client w)))"

text \<open>
  The invariant of the component's life after \<open>n\<close> selections of a file: \<open>n\<close> URLs have
  been created, the preview is the last of them, and each of the others has been released
  twice, once by \<open>handleFileSelect\<close> and once by the effect's cleanup.
\<close>

definition previewInvariant :: "nat \<Rightarrow> 'a app_state_scheme \<times> browser \<Rightarrow> bool" where
  "previewInvariant n w =
     (blobCount (snd w) = n
      \<and> imagePreview (fst w) = (if n = 0 then None else Some (blobUrl (n - 1)))
      \<and> revoked (snd w) = concat (map (\<lambda>k. [blobUrl k, blobUrl k]) [0..<n - 1]))"

section \<open>Auxiliary facts\<close>

subsection \<open>Sequencing and the shape of payloads\<close>

lemma bindE_Inr [simp]: "bindE (Inr x) f = f x"
  by (simp add: bindE_def)

lemma bindE_Inl [simp]: "bindE (Inl e) f = Inl e"
  by (simp add: bindE_def)


lemma cannotRead_TypeError: "\<exists>m. cannotRead v k = TypeError m"
  by (simp add: cannotRead_def)











lemma tryFetch_Inr_array: "tryFetch out = Inr ds \<Longrightarrow> \<exists>ys. ds = JArr ys"
  by (auto simp: tryFetch_def bindE_def split: fetch_outcome.splits json_outcome.splits
      if_splits sum.splits elim!: callMap.elims)




subsection \<open>Blob URLs are distinct; the life of the preview\<close>

lemma digitChar_inj: "a < 10 \<Longrightarrow> b < 10 \<Longrightarrow> digitChar a = digitChar b \<Longrightarrow> a = b"
proof -
  assume a: "a < 10" and b: "b < 10" and e: "digitChar a = digitChar b"
  have "of_char (digitChar d) = 48 + d" if "d < 10" for d :: nat
  proof -
    from that have "d \<in> {0,1,2,3,4,5,6,7,8,9}" by auto
    then show ?thesis by (auto simp: digitChar_def)
  qed
  with a b have "(48::nat) + a = of_char (digitChar a)" "(48::nat) + b = of_char (digitChar b)"
    by simp_all
  with e show ?thesis by simp
qed

lemma showNat_nonempty: "showNat n \<noteq> []"
  by (subst showNat.simps) simp

lemma showNat_inj: "showNat a = showNat b \<Longrightarrow> a = b"
proof (induction a arbitrary: b rule: showNat.induct)
  case (1 n)
  show ?case
  proof (cases "n < 10")
    case True
    have "b < 10"
    proof (rule ccontr)
      assume "\<not> b < 10"
      then have "showNat b = showNat (b div 10) @ [digitChar (b mod 10)]"
        by (subst showNat.simps) simp
      moreover from True have "showNat n = [digitChar n]" by (subst showNat.simps) simp
      ultimately show False using 1(2) showNat_nonempty [of "b div 10"] by simp
    qed
    with True 1(2) show ?thesis
      by (metis digitChar_inj list.inject showNat.simps)
  next
    case False
    then have n: "showNat n = showNat (n div 10) @ [digitChar (n mod 10)]"
      by (subst showNat.simps) simp
    have nb: "\<not> b < 10"
    proof
      assume "b < 10"
      then have "showNat b = [digitChar b]" by (subst showNat.simps) simp
      with n 1(2) showNat_nonempty [of "n div 10"] show False by simp
    qed
    then have b: "showNat b = showNat (b div 10) @ [digitChar (b mod 10)]"
      by (subst showNat.simps) simp
    from n b 1(2) have "showNat (n div 10) = showNat (b div 10)"
      and "digitChar (n mod 10) = digitChar (b mod 10)" by simp_all
    with 1(1) [OF False] have "n div 10 = b div 10" and "n mod 10 = b mod 10"
      by (auto intro: digitChar_inj)
    then show ?thesis by (metis div_mult_mod_eq)
  qed
qed

lemma blobUrl_inj: "blobUrl a = blobUrl b \<longleftrightarrow> a = b"
  by (auto simp: blobUrl_def dest: showNat_inj)

lemma blobUrl_is_blob: "blobUrl n \<noteq> [] \<and> startsWith (blobUrl n) ''blob:''"
  by (simp add: blobUrl_def startsWith_def)

lemma revokeIfBlob_blobUrl:
  "revokeIfBlob (Some (blobUrl n)) br = br\<lparr>revoked := revoked br @ [blobUrl n]\<rparr>"
  using blobUrl_is_blob [of n] by (simp add: revokeIfBlob_def revokeObjectURL_def)


lemma count_released:
  "count_list (concat (map (\<lambda>k. [blobUrl k, blobUrl k]) [0..<j])) (blobUrl i) = (if i < j then 2 else 0)"
  by (induction j) (auto simp: blobUrl_inj)

lemma selectImage_empty: "selectImage [] w = w"
  by (simp add: selectImage_def handleFileSelect_def rerender_def)

lemma selectImage_first:
  assumes "blobCount br = 0" and "imagePreview st = None" and "revoked br = []"
  shows "blobCount (snd (selectImage (f # fs) (st, br))) = 1
    \<and> imagePreview (fst (selectImage (f # fs) (st, br))) = Some (blobUrl 0)
    \<and> revoked (snd (selectImage (f # fs) (st, br))) = []"
  using assms
  by (simp add: selectImage_def handleFileSelect_def rerender_def createObjectURL_def
      revokeIfBlob_def effectCleanup_def)

lemma selectImage_next:
  assumes "blobCount br = Suc n" and "imagePreview st = Some (blobUrl n)"
  shows "blobCount (snd (selectImage (f # fs) (st, br))) = Suc (Suc n)
    \<and> imagePreview (fst (selectImage (f # fs) (st, br))) = Some (blobUrl (Suc n))
    \<and> revoked (snd (selectImage (f # fs) (st, br))) = revoked br @ [blobUrl n, blobUrl n]"
  using assms
  by (simp add: selectImage_def handleFileSelect_def rerender_def createObjectURL_def
      revokeIfBlob_blobUrl effectCleanup_def blobUrl_inj)


lemma previewInvariant_initial: "previewInvariant 0 (initial, browser0)"
  by (simp add: previewInvariant_def initial_def browser0_def)

lemma previewInvariant_selectImage:
  assumes "previewInvariant n w"
  shows "previewInvariant (if files = [] then n else Suc n) (selectImage files w)"
proof (cases files)
  case Nil
  with assms show ?thesis by (simp add: selectImage_empty)
next
  case (Cons f fs)
  obtain st br where w: "w = (st, br)" by (cases w)
  show ?thesis
  proof (cases n)
    case 0
    with assms w have "blobCount br = 0" "imagePreview st = None" "revoked br = []"
      by (simp_all add: previewInvariant_def)
    from selectImage_first [OF this, of f fs] Cons w 0 show ?thesis
      by (simp add: previewInvariant_def)
  next
    case (Suc k)
    with assms w have "blobCount br = Suc k" "imagePreview st = Some (blobUrl k)"
      and r: "revoked br = concat (map (\<lambda>k. [blobUrl k, blobUrl k]) [0..<k])"
      by (simp_all add: previewInvariant_def)
    from selectImage_next [OF this(1,2), of f fs] r Cons w Suc show ?thesis
      by (simp add: previewInvariant_def)
  qed
qed

lemma previewInvariant_selectImages:
  "previewInvariant n w \<Longrightarrow>
     previewInvariant (n + length (filter (\<lambda>files. files \<noteq> []) events)) (selectImages events w)"
proof (induction events arbitrary: n w)
  case Nil
  then show ?case by simp
next
  case (Cons files events)
  from previewInvariant_selectImage [OF Cons.prems, of files]
  have "previewInvariant (if files = [] then n else Suc n) (selectImage files w)" .
  from Cons.IH [OF this] show ?case by (cases "files = []") simp_all
qed

lemma previewInvariant_unmount:
  assumes "previewInvariant n w"
  shows "blobCount (unmount w) = n"
    and "revoked (unmount w) =
       concat (map (\<lambda>k. [blobUrl k, blobUrl k]) [0..<n - 1]) @ (if n = 0 then [] else [blobUrl (n - 1)])"
proof -
  show "blobCount (unmount w) = n"
    using assms
    by (cases n) (simp_all add: previewInvariant_def unmount_def effectCleanup_def
        revokeIfBlob_blobUrl, simp add: revokeIfBlob_def)
  show "revoked (unmount w) =
       concat (map (\<lambda>k. [blobUrl k, blobUrl k]) [0..<n - 1]) @ (if n = 0 then [] else [blobUrl (n - 1)])"
    using assms
    by (cases n) (simp_all add: previewInvariant_def unmount_def effectCleanup_def
        revokeIfBlob_blobUrl, simp add: revokeIfBlob_def)
qed


subsection \<open>The continuation of a request\<close>




lemma resume_success:
  "tryFetch out = Inr ds \<Longrightarrow>
     detectObjects_resume out st = st\<lparr>detections := ds, isLoading := False\<rparr>"
  using tryFetch_Inr_array [of out ds] by (auto simp: detectObjects_resume_def)


lemma client_resume_success:
  "tryPredict out = Inr d \<Longrightarrow>
     detectObjects_client_resume out st =
       st\<lparr>detections := (if truthy d then d else JArr []), isLoading := False\<rparr>"
  by (simp add: detectObjects_client_resume_def)

lemma revokeIfBlob_frame:
  "blobCount (revokeIfBlob p br) = blobCount br \<and> requests (revokeIfBlob p br) = requests br"
  by (simp add: revokeIfBlob_def revokeObjectURL_def split: option.split)

lemma handleFileSelect_state:
  "fst (handleFileSelect (f # fs) w) =
     (fst w)\<lparr>detections := JArr [], error := None, originalImageDimensions := None,
             displayedImageDimensions := None, imageFile := Some f,
             imagePreview := Some (blobUrl (blobCount (snd w)))\<rparr>"
  by (simp add: handleFileSelect_def createObjectURL_def Let_def revokeIfBlob_frame)

lemma formatDetection_array:
  assumes "map_of kvs ''class_name'' = Some n" and "map_of kvs ''confidence'' = Some c"
    and "map_of kvs ''bbox'' = Some (JArr [a1, b1, a2, b2])"
  shows "formatDetection (JObj kvs) = Inr (canonicalShape n c a1 b1 a2 b2)"
  using assms by (simp add: formatDetection_def canonicalShape_def)

lemma formatDetection_arrayRecord: "formatDetection (arrayRecord d) = Inr (encodeDetection d)"
  by (simp add: arrayRecord_def encodeDetection_def formatDetection_array)

lemma mapE_arrayRecord: "mapE formatDetection (map arrayRecord ds) = Inr (map encodeDetection ds)"
  by (induction ds) (simp_all add: formatDetection_arrayRecord)

subsection \<open>Rounding to a double\<close>

lemma bitLength_bounds:
  "0 < n \<Longrightarrow> 2 ^ (bitLength n - 1) \<le> n \<and> n < 2 ^ bitLength n"
proof (induction n rule: bitLength.induct)
  case (1 n)
  show ?case
  proof (cases "n = 1")
    case True
    then have "bitLength n = 1"
      by (simp add: bitLength.simps [of 1] bitLength.simps [of 0])
    with True show ?thesis by simp
  next
    case False
    with 1(2) have h: "0 < n div 2" by simp
    from 1(1) 1(2) h have ih: "2 ^ (bitLength (n div 2) - 1) \<le> n div 2" "n div 2 < 2 ^ bitLength (n div 2)"
      by simp_all
    from 1(2) have b: "bitLength n = Suc (bitLength (n div 2))"
      by (subst bitLength.simps) simp
    have pos: "0 < bitLength (n div 2)"
      using h by (subst bitLength.simps) simp
    then obtain k where k: "bitLength (n div 2) = Suc k" by (cases "bitLength (n div 2)") simp_all
    from ih k have "2 * 2 ^ k \<le> 2 * (n div 2)" "2 * (n div 2) + 1 < 2 * 2 ^ Suc k"
      by simp_all
    moreover have "2 * (n div 2) \<le> n" "n \<le> 2 * (n div 2) + 1" by presburger+
    ultimately show ?thesis using b k by simp
  qed
qed


lemma binaryExponent_le:
  assumes "0 < x"
  shows "2 powi (binaryExponent x) \<le> x"
proof -
  obtain p q where pq: "quotient_of x = (p, q)" by (cases "quotient_of x")
  then have x: "x = of_int p / of_int q" by (rule quotient_of_div)
  from pq have q: "0 < q" using quotient_of_denom_pos' [of x] by simp
  with assms x have p: "0 < p" by (simp add: zero_less_divide_iff)
  define d where "d = int (bitLength p) - int (bitLength q)"
  from assms pq have e: "binaryExponent x = (if x < 2 powi d then d - 1 else d)"
    by (simp add: binaryExponent_def d_def)
  show ?thesis
  proof (cases "x < 2 powi d")
    case False
    with e show ?thesis by simp
  next
    case True
    from bitLength_bounds [OF p] have lp: "2 ^ (bitLength p - 1) \<le> p" by simp
    from bitLength_bounds [OF q] have uq: "q < 2 ^ bitLength q" by simp
    from p have bp: "0 < bitLength p" by (subst bitLength.simps) simp
    have "d - 1 = int (bitLength p - 1) - int (bitLength q)"
      using bp by (simp add: d_def of_nat_diff)
    then have "(2::rat) powi (d - 1) = 2 powi int (bitLength p - 1) / 2 powi int (bitLength q)"
      by (simp only: power_int_diff [of "2::rat"]) (simp add: power_int_diff)
    also have "\<dots> = 2 ^ (bitLength p - 1) / 2 ^ bitLength q"
      by (simp only: power_int_of_nat)
    also have "\<dots> \<le> of_int p / of_int q"
    proof -
      have "(of_int (2 ^ (bitLength p - 1)) :: rat) \<le> of_int p"
        using lp by (simp only: of_int_le_iff)
      then have a: "(2::rat) ^ (bitLength p - 1) \<le> of_int p" by simp
      have "(of_int q :: rat) < of_int (2 ^ bitLength q)"
        using uq by (simp only: of_int_less_iff)
      then have b: "(of_int q :: rat) \<le> 2 ^ bitLength q" by simp
      have c: "(0::rat) < of_int q" using q by simp
      from a b c p show ?thesis by (intro frac_le) simp_all
    qed
    finally show ?thesis using e True x by simp
  qed
qed

lemma binaryExponent_small:
  assumes "0 < x" and "x < 128"
  shows "binaryExponent x \<le> 6"
proof -
  have "(2::rat) powi binaryExponent x < 2 powi 7"
    using binaryExponent_le [OF assms(1)] assms(2) by simp
  then have "binaryExponent x < 7"
    by (rule power_int_le_imp_less_exp [rotated]) simp_all
  then show ?thesis by simp
qed

lemma roundHalfEven_near: "\<bar>of_int (roundHalfEven r) - r\<bar> \<le> 1 / 2"
proof -
  have "of_int \<lfloor>r\<rfloor> \<le> r" "r < of_int \<lfloor>r\<rfloor> + 1" by linarith+
  then show ?thesis by (auto simp: roundHalfEven_def Let_def)
qed

lemma roundHalfEven_nonneg: "0 \<le> r \<Longrightarrow> 0 \<le> roundHalfEven r"
  by (auto simp: roundHalfEven_def Let_def intro: order_trans [of 0 "\<lfloor>r\<rfloor>"])


lemma roundDouble_near:
  assumes "0 \<le> x" and "x \<le> 100"
  shows "\<exists>p. roundDouble x = Some p \<and> 0 \<le> p \<and> \<bar>p - x\<bar> \<le> 1 / 2 ^ 47"
proof (cases "x = 0")
  case True
  then show ?thesis by (simp add: roundDouble_def)
next
  case False
  with assms have pos: "0 < x" by simp
  define e where "e = max (binaryExponent x) (- 1022)"
  define Q :: rat where "Q = 2 powi (e - 52)"
  define m where "m = roundHalfEven (x / Q)"
  have "binaryExponent x \<le> 6" using pos assms(2) by (intro binaryExponent_small) simp_all
  then have e: "e - 52 \<le> - 46" by (simp add: e_def)
  have Qpos: "0 < Q" by (simp add: Q_def zero_less_power_int)
  have "Q \<le> 2 powi (- 46)" unfolding Q_def using e by (intro power_int_increasing) simp_all
  then have Qle: "Q \<le> 1 / 2 ^ 46" by (simp add: power_int_minus field_simps)
  have mpos: "0 \<le> m" unfolding m_def using pos Qpos by (intro roundHalfEven_nonneg) simp
  have "\<bar>of_int m - x / Q\<bar> \<le> 1 / 2" unfolding m_def by (rule roundHalfEven_near)
  then have "\<bar>of_int m - x / Q\<bar> * Q \<le> 1 / 2 * Q"
    using Qpos by (intro mult_right_mono) simp_all
  moreover have "\<bar>of_int m - x / Q\<bar> * Q = \<bar>of_int m * Q - x\<bar>"
  proof -
    have "\<bar>of_int m - x / Q\<bar> * Q = \<bar>(of_int m - x / Q) * Q\<bar>"
      using Qpos by (simp add: abs_mult)
    also have "(of_int m - x / Q) * Q = of_int m * Q - x"
      using Qpos by (simp add: left_diff_distrib)
    finally show ?thesis .
  qed
  ultimately have near: "\<bar>of_int m * Q - x\<bar> \<le> 1 / 2 ^ 47" using Qle by simp
  then have "of_int m * Q \<le> x + 1 / 2 ^ 47" by linarith
  with assms(2) have "of_int m * Q < 128" by simp
  also have "(128::rat) = 2 powi 7" by simp
  also have "\<dots> < 2 powi 1024" by (intro power_int_strict_increasing) simp_all
  finally have fin: "\<not> 2 powi 1024 \<le> of_int m * Q" by simp
  have "roundDouble x = Some (of_int m * Q)"
    using pos False fin
    by (simp add: roundDouble_def Let_def e_def [symmetric] Q_def [symmetric] m_def [symmetric])
  moreover have "0 \<le> of_int m * Q" using mpos Qpos by simp
  ultimately show ?thesis using near by simp
qed

lemma double_of_8567: "roundDouble (8567 / 10000) = Some (241139612548019 / 281474976710656)"
  by code_simp

lemma product_of_8567:
  "roundDouble (241139612548019 / 281474976710656 * 100) = Some (6028490313700475 / 70368744177664)"
  by code_simp

subsection \<open>Rectangles and labels of canonical detections\<close>


lemma showNat_small: "n < 10 \<Longrightarrow> showNat n = [digitChar n]"
  by (subst showNat.simps) simp

lemma showNat_big: "\<not> n < 10 \<Longrightarrow> showNat n = showNat (n div 10) @ [digitChar (n mod 10)]"
  by (subst showNat.simps) simp

lemma showNat_zero: "showNat 0 = ''0''"
  by (simp add: showNat_small digitChar_def)

lemma toFixed1_digits:
  assumes "0 \<le> x" and "x < 10 ^ 21"
  shows "toFixed1 (Some x) =
     Inr (showNat (nat \<lfloor>x * 10 + 1 / 2\<rfloor> div 10) @ ''.'' @ showNat (nat \<lfloor>x * 10 + 1 / 2\<rfloor> mod 10))"
proof -
  define n where "n = nat \<lfloor>x * 10 + 1 / 2\<rfloor>"
  have last: "showNat (n mod 10) = [digitChar (n mod 10)]" by (simp add: showNat_small)
  have ax: "\<bar>x\<bar> = x" using assms by simp
  show ?thesis
  proof (cases "n < 10")
    case True
    then have "showNat n = [digitChar n]" "n div 10 = 0" "n mod 10 = n"
      by (simp_all add: showNat_small)
    with assms ax last show ?thesis
      by (simp add: toFixed1_def Let_def n_def [symmetric] showNat_zero)
  next
    case False
    then have m: "showNat n = showNat (n div 10) @ [digitChar (n mod 10)]"
      by (rule showNat_big)
    have "showNat (n div 10) \<noteq> []" by (rule showNat_nonempty)
    then have "\<not> length (showNat n) \<le> 1" using m by (cases "showNat (n div 10)") simp_all
    with assms ax last m show ?thesis
      by (simp add: toFixed1_def Let_def n_def [symmetric])
  qed
qed

lemma nearest_tenth:
  assumes "0 \<le> (x::rat)"
  shows "\<bar>of_nat (nat \<lfloor>x * 10 + 1 / 2\<rfloor>) / 10 - x\<bar> \<le> 1 / 20"
proof -
  define k where "k = \<lfloor>x * 10 + 1 / 2\<rfloor>"
  have "0 \<le> x * 10 + 1 / 2" using assms by simp
  then have "0 \<le> k" unfolding k_def by simp
  then have n: "(of_nat (nat k) :: rat) = of_int k" by simp
  have "of_int k \<le> x * 10 + 1 / 2" "x * 10 + 1 / 2 < of_int k + 1"
    unfolding k_def by linarith+
  then have "of_int k / 10 - x \<le> 1 / 20" "- (1 / 20) \<le> of_int k / 10 - x"
    by linarith+
  then have "\<bar>of_int k / 10 - x\<bar> \<le> 1 / 20" by linarith
  then show ?thesis unfolding k_def [symmetric] n .
qed

lemma boxStyle_total:
  "\<exists>style. boxStyle sf
     (JObj [(''x1'', JNum a1), (''y1'', JNum b1), (''x2'', JNum a2), (''y2'', JNum b2)]) = Inr style"
  by (simp add: boxStyle_def thrown_def)

lemma labelText_digits:
  assumes "0 \<le> c" and "c \<le> 1"
  shows "\<exists>p. roundDouble (c * 100) = Some p \<and> \<bar>p - c * 100\<bar> \<le> 1 / 2 ^ 47
    \<and> \<bar>of_nat (nat \<lfloor>p * 10 + 1 / 2\<rfloor>) / 10 - p\<bar> \<le> 1 / 20
    \<and> labelText (JStr nm) (JNum c) =
        Inr (nm @ '' ('' @ showNat (nat \<lfloor>p * 10 + 1 / 2\<rfloor> div 10) @ ''.''
               @ showNat (nat \<lfloor>p * 10 + 1 / 2\<rfloor> mod 10) @ ''%)'')"
proof -
  have x: "0 \<le> c * 100" "c * 100 \<le> 100" using assms by simp_all
  from roundDouble_near [OF x] obtain p where
    p: "roundDouble (c * 100) = Some p" "0 \<le> p" "\<bar>p - c * 100\<bar> \<le> 1 / 2 ^ 47"
    by blast
  have "(1::rat) / 2 ^ 47 \<le> 1" by simp
  with p(3) x(2) have "p \<le> 101" by linarith
  then have "p < 10 ^ 21" by simp
  from toFixed1_digits [OF p(2) this] p(1) have
    "labelText (JStr nm) (JNum c) =
        Inr (nm @ '' ('' @ showNat (nat \<lfloor>p * 10 + 1 / 2\<rfloor> div 10) @ ''.''
               @ showNat (nat \<lfloor>p * 10 + 1 / 2\<rfloor> mod 10) @ ''%)'')"
    by (simp add: labelText_def doubleTimes_def)
  with p nearest_tenth [OF p(2)] show ?thesis by blast
qed


lemma renderDetection_label:
  assumes "0 \<le> det_confidence d" and "det_confidence d \<le> 1"
  shows "\<exists>p style. roundDouble (det_confidence d * 100) = Some p
    \<and> \<bar>p - det_confidence d * 100\<bar> \<le> 1 / 2 ^ 47
    \<and> \<bar>of_nat (nat \<lfloor>p * 10 + 1 / 2\<rfloor>) / 10 - p\<bar> \<le> 1 / 20
    \<and> renderDetection sf (encodeDetection d) =
     Inr (style,
          det_name d @ '' ('' @ showNat (nat \<lfloor>p * 10 + 1 / 2\<rfloor> div 10) @ ''.''
             @ showNat (nat \<lfloor>p * 10 + 1 / 2\<rfloor> mod 10) @ ''%)'')"
proof -
  from boxStyle_total [of sf "box_x1 d" "box_y1 d" "box_x2 d" "box_y2 d"] obtain style where
    s: "boxStyle sf (JObj [(''x1'', JNum (box_x1 d)), (''y1'', JNum (box_y1 d)),
        (''x2'', JNum (box_x2 d)), (''y2'', JNum (box_y2 d))]) = Inr style" ..
  from labelText_digits [OF assms, of "det_name d"] obtain p where
    p: "roundDouble (det_confidence d * 100) = Some p"
      "\<bar>p - det_confidence d * 100\<bar> \<le> 1 / 2 ^ 47"
      "\<bar>of_nat (nat \<lfloor>p * 10 + 1 / 2\<rfloor>) / 10 - p\<bar> \<le> 1 / 20"
      "labelText (JStr (det_name d)) (JNum (det_confidence d)) =
        Inr (det_name d @ '' ('' @ showNat (nat \<lfloor>p * 10 + 1 / 2\<rfloor> div 10) @ ''.''
               @ showNat (nat \<lfloor>p * 10 + 1 / 2\<rfloor> mod 10) @ ''%)'')"
    by blast
  from s p(4) have "renderDetection sf (encodeDetection d) =
     Inr (style,
          det_name d @ '' ('' @ showNat (nat \<lfloor>p * 10 + 1 / 2\<rfloor> div 10) @ ''.''
             @ showNat (nat \<lfloor>p * 10 + 1 / 2\<rfloor> mod 10) @ ''%)'')"
    by (simp add: renderDetection_def encodeDetection_def canonicalShape_def thrown_def)
  with p(1-3) show ?thesis by blast
qed


section \<open>Properties of image intake\<close>

text \<open>
  C10. When the event's file list yields no file, \<open>handleFileSelect\<close> returns early: the
  whole state (file, preview, detections, error, both dimension records) and the browser
  (no URL revoked, none created, no request) are as before.
\<close>

theorem handleFileSelect_no_file:
  "handleFileSelect [] (st, br) = (st, br)"
  by (simp add: handleFileSelect_def)

text \<open>
  C3. From every state, a selection that carries a file leaves the detections empty, the
  error \<open>null\<close> and both dimension records \<open>null\<close>, with the selected file as the
  image. The handler sends no request: the reset is complete before a request for the new
  image can be sent.
\<close>

theorem handleFileSelect_resets:
  "detections (fst (handleFileSelect (f # fs) (st, br))) = JArr []
   \<and> error (fst (handleFileSelect (f # fs) (st, br))) = None
   \<and> originalImageDimensions (fst (handleFileSelect (f # fs) (st, br))) = None
   \<and> displayedImageDimensions (fst (handleFileSelect (f # fs) (st, br))) = None
   \<and> imageFile (fst (handleFileSelect (f # fs) (st, br))) = Some f
   \<and> requests (snd (handleFileSelect (f # fs) (st, br))) = requests br"
  by (simp add: handleFileSelect_def createObjectURL_def revokeIfBlob_def revokeObjectURL_def
      split: option.split)

text \<open>
  C9 as stated fails: a preview that is replaced is released twice, by
  \<open>handleFileSelect\<close> and by the cleanup of the effect that runs when the preview
  changes. After the selection of two files and the unmount, the log of releases holds the
  first URL twice.
\<close>

theorem preview_released_twice:
  "revoked (lifetime [[File ''a.png''], [File ''b.png'']]) = [''blob:0'', ''blob:0'', ''blob:1'']"
  by code_simp

text \<open>
  C9, amended. In every life of the component (a sequence of selections, then the
  unmount) one URL is created for each selection that carries a file, and each of them
  is released: a replaced one twice, the last one once, at the unmount. None is leaked.
\<close>

theorem preview_released:
  "blobCount (lifetime events) = length (filter (\<lambda>files. files \<noteq> []) events)
   \<and> (\<forall>k < blobCount (lifetime events).
        count_list (revoked (lifetime events)) (blobUrl k)
          = (if Suc k < blobCount (lifetime events) then 2 else 1))"
proof -
  define m where "m = length (filter (\<lambda>files. files \<noteq> []) events)"
  have inv: "previewInvariant m (selectImages events (initial, browser0))"
    using previewInvariant_selectImages [OF previewInvariant_initial, of events]
    by (simp add: m_def)
  have c: "blobCount (lifetime events) = m"
    and r: "revoked (lifetime events) =
       concat (map (\<lambda>k. [blobUrl k, blobUrl k]) [0..<m - 1]) @ (if m = 0 then [] else [blobUrl (m - 1)])"
    using previewInvariant_unmount [OF inv] by (simp_all add: lifetime_def)
  have "count_list (revoked (lifetime events)) (blobUrl k) = (if Suc k < m then 2 else 1)"
    if "k < m" for k
  proof -
    from that have "m \<noteq> 0" by simp
    with r have "count_list (revoked (lifetime events)) (blobUrl k)
        = (if k < m - 1 then 2 else 0) + (if k = m - 1 then 1 else 0)"
      by (simp add: count_released blobUrl_inj)
    with that show ?thesis by auto
  qed
  with c show ?thesis by (simp add: m_def)
qed

theorem preview_released_witness:
  "blobCount (lifetime [[File ''a.png''], [], [File ''b.png'']]) = 2
   \<and> count_list (revoked (lifetime [[File ''a.png''], [], [File ''b.png'']])) (blobUrl 0) = 2
   \<and> count_list (revoked (lifetime [[File ''a.png''], [], [File ''b.png'']])) (blobUrl 1) = 1"
  using preview_released [of "[[File ''a.png''], [], [File ''b.png'']]"] by simp

section \<open>Properties of the detection client\<close>

text \<open>
  C6. With no image selected, \<open>detectObjects\<close> sets an error message and returns: in
  both variants the state changes in its error only (the loading flag is not set) and the
  browser record is the same, so no request is sent.
\<close>

theorem detect_without_image:
  assumes "imageFile st = None" and "imageFile cst = None"
  shows "detectObjects (st, br) = (st\<lparr>error := Some ''Please select an image first.''\<rparr>, br)
    \<and> detectObjects_client (cst, br) =
        (cst\<lparr>error := Some (if client cst = None then ''Client not ready. Please wait.''
                              else ''Please select an image first.'')\<rparr>, br)
    \<and> error (fst (detectObjects (st, br))) \<noteq> None
    \<and> error (fst (detectObjects_client (cst, br))) \<noteq> None
    \<and> requests (snd (detectObjects (st, br))) = requests br
    \<and> requests (snd (detectObjects_client (cst, br))) = requests br
    \<and> isLoading (fst (detectObjects (st, br))) = isLoading st
    \<and> isLoading (fst (detectObjects_client (cst, br))) = isLoading cst"
  using assms by (simp add: detectObjects_def detectObjects_client_def)

theorem detect_without_image_witness:
  "detectObjects (initial, browser0)
     = (initial\<lparr>error := Some ''Please select an image first.''\<rparr>, browser0)
   \<and> detectObjects_client (initial_client, browser0)
     = (initial_client\<lparr>error := Some ''Client not ready. Please wait.''\<rparr>, browser0)"
proof -
  have a: "imageFile initial = None" by (simp add: initial_def)
  have b: "imageFile initial_client = None" by (simp add: initial_client_def)
  have c: "client initial_client = None" by (simp add: initial_client_def)
  from detect_without_image [OF a b, of browser0] c show ?thesis by simp
qed




text \<open>
  C2 as stated fails: the continuation stores what the response holds whatever image is
  selected by then. Image \<open>a.png\<close> is selected and a request sent for it; \<open>b.png\<close> is
  selected while the request is in flight; the response for \<open>a.png\<close> arrives. The state
  then has \<open>b.png\<close> as its image and the detections of \<open>a.png\<close>.
\<close>

theorem stale_response_applied:
  "requests (snd (detectObjects (handleFileSelect [File ''a.png''] (initial, browser0))))
     = [File ''a.png'']
   \<and> supersededRun [File ''b.png'']
       (FetchResolves \<lparr>ok = True, status = 200, statusText = ''OK'',
          json = JsonResolves (JObj [(''detections'',
            JArr [JObj [(''class_name'', JStr ''pothole''), (''confidence'', JNum (9 / 10)),
                        (''bbox'', JArr [JNum 10, JNum 20, JNum 110, JNum 70])]])])\<rparr>)
       (handleFileSelect [File ''a.png''] (initial, browser0))
     = \<lparr> imageFile = Some (File ''b.png''), imagePreview = Some ''blob:1'',
         detections = JArr [JObj [(''name'', JStr ''pothole''), (''confidence'', JNum (9 / 10)),
            (''box'', JObj [(''x1'', JNum 10), (''y1'', JNum 20), (''x2'', JNum 110), (''y2'', JNum 70)])]],
         isLoading = False, error = None,
         originalImageDimensions = None, displayedImageDimensions = None \<rparr>"
  by (simp add: supersededRun_def detectObjects_resume_def detectObjects_def handleFileSelect_def
      tryFetch_def formatDetection_def createObjectURL_def revokeIfBlob_def revokeObjectURL_def
      initial_def browser0_def blobUrl_def showNat.simps digitChar_def startsWith_def)

text \<open>
  C2, amended. When a request is sent for image \<open>a\<close> and an image \<open>b\<close> is selected
  before it completes, the selection empties the detections, and the successful response
  that arrives afterwards is stored as the detections while \<open>b\<close> is the selected
  image: neither variant compares the response with the current image.
\<close>

theorem stale_response_stored:
  assumes "imageFile st = Some a" and "tryFetch out = Inr ds"
    and "imageFile cst = Some a" and "client cst = Some app" and "tryPredict pout = Inr d"
  shows "requests (snd (detectObjects (st, br))) = requests br @ [a]
    \<and> detections (fst (handleFileSelect (b # fs) (detectObjects (st, br)))) = JArr []
    \<and> imageFile (supersededRun (b # fs) out (st, br)) = Some b
    \<and> detections (supersededRun (b # fs) out (st, br)) = ds
    \<and> requests (snd (detectObjects_client (cst, cbr))) = requests cbr @ [a]
    \<and> detections (fst (handleFileSelect (b # fs) (detectObjects_client (cst, cbr)))) = JArr []
    \<and> imageFile (supersededRun_client (b # fs) pout (cst, cbr)) = Some b
    \<and> detections (supersededRun_client (b # fs) pout (cst, cbr)) = (if truthy d then d else JArr [])"
  using assms
  by (simp add: supersededRun_def supersededRun_client_def resume_success client_resume_success
      detectObjects_def detectObjects_client_def handleFileSelect_state)

theorem stale_response_stored_witness:
  "detections (supersededRun [File ''b.png'']
       (FetchResolves \<lparr>ok = True, status = 200, statusText = ''OK'',
          json = JsonResolves (JObj [(''detections'',
            JArr [JObj [(''class_name'', JStr ''pothole''), (''confidence'', JNum (9 / 10)),
                        (''bbox'', JArr [JNum 10, JNum 20, JNum 110, JNum 70])]])])\<rparr>)
       (handleFileSelect [File ''a.png''] (initial, browser0)))
     = JArr [JObj [(''name'', JStr ''pothole''), (''confidence'', JNum (9 / 10)),
            (''box'', JObj [(''x1'', JNum 10), (''y1'', JNum 20), (''x2'', JNum 110), (''y2'', JNum 70)])]]
   \<and> detections (supersededRun_client [File ''b.png'']
       (PredictResolves (JObj [(''data'', JArr [JArr [JStr ''stale'']])]))
       (connectClient_resume (Inr (GradioApp ''YeeZ1/yolo_detector''))
          (fst (handleFileSelect [File ''a.png''] (initial_client, browser0))),
        snd (handleFileSelect [File ''a.png''] (initial_client, browser0))))
     = JArr [JStr ''stale'']"
proof -
  have 1: "imageFile (fst (handleFileSelect [File ''a.png''] (initial, browser0))) = Some (File ''a.png'')"
    by (simp add: handleFileSelect_state)
  have 2: "tryFetch (FetchResolves \<lparr>ok = True, status = 200, statusText = ''OK'',
          json = JsonResolves (JObj [(''detections'',
            JArr [JObj [(''class_name'', JStr ''pothole''), (''confidence'', JNum (9 / 10)),
                        (''bbox'', JArr [JNum 10, JNum 20, JNum 110, JNum 70])]])])\<rparr>)
     = Inr (JArr [JObj [(''name'', JStr ''pothole''), (''confidence'', JNum (9 / 10)),
            (''box'', JObj [(''x1'', JNum 10), (''y1'', JNum 20), (''x2'', JNum 110), (''y2'', JNum 70)])]])"
    by (simp add: tryFetch_def formatDetection_def)
  have 3: "imageFile (connectClient_resume (Inr (GradioApp ''YeeZ1/yolo_detector''))
          (fst (handleFileSelect [File ''a.png''] (initial_client, browser0)))) = Some (File ''a.png'')"
    by (simp add: handleFileSelect_state connectClient_resume_def)
  have 4: "client (connectClient_resume (Inr (GradioApp ''YeeZ1/yolo_detector''))
          (fst (handleFileSelect [File ''a.png''] (initial_client, browser0))))
       = Some (GradioApp ''YeeZ1/yolo_detector'')"
    by (simp add: handleFileSelect_state connectClient_resume_def)
  have 5: "tryPredict (PredictResolves (JObj [(''data'', JArr [JArr [JStr ''stale'']])]))
      = Inr (JArr [JStr ''stale''])"
    by (simp add: tryPredict_def)
  from stale_response_stored [OF 1 2 3 4 5,
      of "snd (handleFileSelect [File ''a.png''] (initial, browser0))" "File ''b.png''" "[]"
        "snd (handleFileSelect [File ''a.png''] (initial_client, browser0))"]
  show ?thesis
    by (simp add: handleFileSelect_def createObjectURL_def revokeIfBlob_def initial_def
        initial_client_def browser0_def)
qed

text \<open>
  C4 as stated fails in each variant. The REST variant reads the box by index: a record
  whose \<open>bbox\<close> is an object of four fields is stored with four \<open>undefined\<close>
  coordinates. The client variant converts nothing: a record with \<open>class_name\<close> and an
  array \<open>bbox\<close> is stored as it came.
\<close>

theorem detections_not_normalized:
  "detections (detectObjects_resume
      (FetchResolves \<lparr>ok = True, status = 200, statusText = ''OK'',
         json = JsonResolves (JObj [(''detections'',
           JArr [JObj [(''class_name'', JStr ''pothole''), (''confidence'', JNum (9 / 10)),
                       (''bbox'', JObj [(''x1'', JNum 10), (''y1'', JNum 20),
                                        (''x2'', JNum 110), (''y2'', JNum 70)])]])])\<rparr>) initial)
     = JArr [JObj [(''name'', JStr ''pothole''), (''confidence'', JNum (9 / 10)),
            (''box'', JObj [(''x1'', JUndefined), (''y1'', JUndefined),
                            (''x2'', JUndefined), (''y2'', JUndefined)])]]
   \<and> detections (detectObjects_client_resume
      (PredictResolves (JObj [(''data'',
         JArr [JArr [JObj [(''class_name'', JStr ''pothole''), (''confidence'', JNum (9 / 10)),
                           (''bbox'', JArr [JNum 10, JNum 20, JNum 110, JNum 70])]]])]))
      initial_client)
     = JArr [JObj [(''class_name'', JStr ''pothole''), (''confidence'', JNum (9 / 10)),
                   (''bbox'', JArr [JNum 10, JNum 20, JNum 110, JNum 70])]]
   \<and> detections (detectObjects_resume
      (FetchResolves \<lparr>ok = True, status = 200, statusText = ''OK'',
         json = JsonResolves (JObj [(''detections'',
           JArr [JObj [(''class_name'', JStr ''pothole''), (''confidence'', JNum (9 / 10)),
                       (''bbox'', JObj [(''x1'', JNum 10), (''y1'', JNum 20),
                                        (''x2'', JNum 110), (''y2'', JNum 70)])]])])\<rparr>) initial)
     \<noteq> JArr [encodeDetection \<lparr>det_name = ''pothole'', det_confidence = 9 / 10,
               box_x1 = 10, box_y1 = 20, box_x2 = 110, box_y2 = 70\<rparr>]
   \<and> detections (detectObjects_client_resume
      (PredictResolves (JObj [(''data'',
         JArr [JArr [JObj [(''class_name'', JStr ''pothole''), (''confidence'', JNum (9 / 10)),
                           (''bbox'', JArr [JNum 10, JNum 20, JNum 110, JNum 70])]]])]))
      initial_client)
     \<noteq> JArr [encodeDetection \<lparr>det_name = ''pothole'', det_confidence = 9 / 10,
               box_x1 = 10, box_y1 = 20, box_x2 = 110, box_y2 = 70\<rparr>]"
  by (simp add: detectObjects_resume_def detectObjects_client_resume_def tryFetch_def
      tryPredict_def formatDetection_def showNat.simps digitChar_def encodeDetection_def
      canonicalShape_def)

text \<open>
  C4, amended. The REST variant converts each returned record whose \<open>bbox\<close> is a
  4-element array into \<open>{name, confidence, box: {x1, y1, x2, y2}}\<close> before it stores
  the list. The client variant stores the first element of \<open>result.data\<close> as it is
  (an empty list when that element is falsy), so what it stores has the canonical shape
  when the service sends it in that shape.
\<close>

theorem detections_as_stored:
  "(map_of kvs ''class_name'' = Some n \<and> map_of kvs ''confidence'' = Some c
      \<and> map_of kvs ''bbox'' = Some (JArr [a1, b1, a2, b2]) \<longrightarrow>
     formatDetection (JObj kvs) = Inr (canonicalShape n c a1 b1 a2 b2))
   \<and> (ok r \<and> json r = JsonResolves (JObj body) \<and> map_of body ''detections'' = Some (JArr (map arrayRecord ds)) \<longrightarrow>
     detections (detectObjects_resume (FetchResolves r) st) = JArr (map encodeDetection ds))
   \<and> (map_of result ''data'' = Some (JArr (v # rest)) \<longrightarrow>
     detections (detectObjects_client_resume (PredictResolves (JObj result)) cst)
       = (if truthy v then v else JArr []))"
proof -
  have "tryFetch (FetchResolves r) = Inr (JArr (map encodeDetection ds))"
    if "ok r" "json r = JsonResolves (JObj body)" "map_of body ''detections'' = Some (JArr (map arrayRecord ds))"
    using that by (simp add: tryFetch_def mapE_arrayRecord)
  then have rest: "ok r \<and> json r = JsonResolves (JObj body) \<and> map_of body ''detections'' = Some (JArr (map arrayRecord ds)) \<longrightarrow>
     detections (detectObjects_resume (FetchResolves r) st) = JArr (map encodeDetection ds)"
    by (simp add: resume_success)
  have "tryPredict (PredictResolves (JObj result)) = Inr v"
    if "map_of result ''data'' = Some (JArr (v # rest))"
    using that by (simp add: tryPredict_def)
  then have cl: "map_of result ''data'' = Some (JArr (v # rest)) \<longrightarrow>
     detections (detectObjects_client_resume (PredictResolves (JObj result)) cst)
       = (if truthy v then v else JArr [])"
    by (simp add: client_resume_success)
  from rest cl formatDetection_array [of kvs n c a1 b1 a2 b2] show ?thesis by blast
qed

theorem detections_as_stored_witness:
  "formatDetection (JObj [(''class_name'', JStr ''pothole''), (''confidence'', JNum (9 / 10)),
                          (''bbox'', JArr [JNum 10, JNum 20, JNum 110, JNum 70])])
     = Inr (JObj [(''name'', JStr ''pothole''), (''confidence'', JNum (9 / 10)),
            (''box'', JObj [(''x1'', JNum 10), (''y1'', JNum 20), (''x2'', JNum 110), (''y2'', JNum 70)])])
   \<and> detections (detectObjects_resume
      (FetchResolves \<lparr>ok = True, status = 200, statusText = ''OK'',
         json = JsonResolves (JObj [(''detections'',
           JArr [JObj [(''class_name'', JStr ''pothole''), (''confidence'', JNum (9 / 10)),
                       (''bbox'', JArr [JNum 10, JNum 20, JNum 110, JNum 70])]])])\<rparr>) initial)
     = JArr [JObj [(''name'', JStr ''pothole''), (''confidence'', JNum (9 / 10)),
            (''box'', JObj [(''x1'', JNum 10), (''y1'', JNum 20), (''x2'', JNum 110), (''y2'', JNum 70)])]]
   \<and> detections (detectObjects_client_resume
      (PredictResolves (JObj [(''data'',
         JArr [JArr [JObj [(''name'', JStr ''pothole''), (''confidence'', JNum (9 / 10)),
            (''box'', JObj [(''x1'', JNum 10), (''y1'', JNum 20), (''x2'', JNum 110), (''y2'', JNum 70)])]]])]))
      initial_client)
     = JArr [JObj [(''name'', JStr ''pothole''), (''confidence'', JNum (9 / 10)),
            (''box'', JObj [(''x1'', JNum 10), (''y1'', JNum 20), (''x2'', JNum 110), (''y2'', JNum 70)])]]"
  using detections_as_stored [of
      "[(''class_name'', JStr ''pothole''), (''confidence'', JNum (9 / 10)),
        (''bbox'', JArr [JNum 10, JNum 20, JNum 110, JNum 70])]"
      "JStr ''pothole''" "JNum (9 / 10)" "JNum 10" "JNum 20" "JNum 110" "JNum 70"
      "\<lparr>ok = True, status = 200, statusText = ''OK'',
         json = JsonResolves (JObj [(''detections'',
           JArr [JObj [(''class_name'', JStr ''pothole''), (''confidence'', JNum (9 / 10)),
                       (''bbox'', JArr [JNum 10, JNum 20, JNum 110, JNum 70])]])])\<rparr>"
      "[(''detections'',
           JArr [JObj [(''class_name'', JStr ''pothole''), (''confidence'', JNum (9 / 10)),
                       (''bbox'', JArr [JNum 10, JNum 20, JNum 110, JNum 70])]])]"
      "[\<lparr>det_name = ''pothole'', det_confidence = 9 / 10, box_x1 = 10, box_y1 = 20,
         box_x2 = 110, box_y2 = 70\<rparr>]"
      initial
      "[(''data'',
         JArr [JArr [JObj [(''name'', JStr ''pothole''), (''confidence'', JNum (9 / 10)),
            (''box'', JObj [(''x1'', JNum 10), (''y1'', JNum 20), (''x2'', JNum 110), (''y2'', JNum 70)])]]])]"
      "JArr [JObj [(''name'', JStr ''pothole''), (''confidence'', JNum (9 / 10)),
            (''box'', JObj [(''x1'', JNum 10), (''y1'', JNum 20), (''x2'', JNum 110), (''y2'', JNum 70)])]]"
      "[]" initial_client]
  by (simp add: arrayRecord_def encodeDetection_def canonicalShape_def)

section \<open>Properties of the overlay renderer\<close>



text \<open>
  C7. With an empty list of detections the view has no rectangle and no JSON panel.
\<close>

theorem empty_detections_render_nothing:
  "detections st = JArr [] \<Longrightarrow> renderOverlays st = Inr [] \<and> jsonPanelShown st = Inr False"
  by (simp add: renderOverlays_def jsonPanelShown_def split: option.split)

theorem empty_detections_render_nothing_witness:
  "imagePreview (onImageLoad \<lparr>width = 800, height = 600\<rparr> \<lparr>width = 400, height = 300\<rparr>
       (fst (handleFileSelect [File ''a.png''] (initial, browser0)))) = Some ''blob:0''
   \<and> getScaleFactors (onImageLoad \<lparr>width = 800, height = 600\<rparr> \<lparr>width = 400, height = 300\<rparr>
       (fst (handleFileSelect [File ''a.png''] (initial, browser0))))
     = Some \<lparr>scaleX = Some (1 / 2), scaleY = Some (1 / 2)\<rparr>
   \<and> renderOverlays (onImageLoad \<lparr>width = 800, height = 600\<rparr> \<lparr>width = 400, height = 300\<rparr>
       (fst (handleFileSelect [File ''a.png''] (initial, browser0)))) = Inr []
   \<and> jsonPanelShown (onImageLoad \<lparr>width = 800, height = 600\<rparr> \<lparr>width = 400, height = 300\<rparr>
       (fst (handleFileSelect [File ''a.png''] (initial, browser0)))) = Inr False"
proof -
  let ?st = "onImageLoad \<lparr>width = 800, height = 600\<rparr> \<lparr>width = 400, height = 300\<rparr>
       (fst (handleFileSelect [File ''a.png''] (initial, browser0)))"
  have d: "detections ?st = JArr []"
    by (simp add: onImageLoad_def handleFileSelect_state)
  have p: "imagePreview ?st = Some ''blob:0''"
    by (simp add: onImageLoad_def handleFileSelect_state browser0_def blobUrl_def
        showNat.simps digitChar_def)
  have s: "getScaleFactors ?st = Some \<lparr>scaleX = Some (1 / 2), scaleY = Some (1 / 2)\<rparr>"
    by (simp add: getScaleFactors_def jsDivide_def onImageLoad_def)
  from empty_detections_render_nothing [OF d] p s show ?thesis by simp
qed

text \<open>
  C8 as stated fails for the number the code holds: the label prints the double that the
  multiplication yields, not the exact product. The double nearest to \<open>0.0015\<close> is a
  little more than \<open>0.0015\<close>, so a hundred times it is more than \<open>0.15\<close> and rounds to
  \<open>0.2\<close>; the product as a double is the double nearest to \<open>0.15\<close>, which is below
  \<open>0.15\<close>, and the label shows \<open>0.1\<close>.
\<close>

theorem label_not_nearest_tenth:
  "roundDouble (15 / 10000) = Some (3458764513820541 / 2305843009213693952)
   \<and> renderDetection \<lparr>scaleX = Some 1, scaleY = Some 1\<rparr>
       (encodeDetection \<lparr>det_name = ''pothole'',
          det_confidence = 3458764513820541 / 2305843009213693952,
          box_x1 = 10, box_y1 = 20, box_x2 = 110, box_y2 = 70\<rparr>)
     = Inr (\<lparr>style_left = Some 10, style_top = Some 20, style_width = Some 100,
              style_height = Some 50\<rparr>, ''pothole (0.1%)'')
   \<and> 1 / 20 < \<bar>1 / 10 - 3458764513820541 / 2305843009213693952 * (100::rat)\<bar>
   \<and> \<bar>2 / 10 - 3458764513820541 / 2305843009213693952 * (100::rat)\<bar> < 1 / 20"
proof -
  have a: "roundDouble (15 / 10000) = Some (3458764513820541 / 2305843009213693952)"
    by code_simp
  have b: "roundDouble (3458764513820541 / 2305843009213693952 * 100)
      = Some (5404319552844595 / 36028797018963968)"
    by code_simp
  have fl: "\<lfloor>(5404319552844595 / 36028797018963968 :: rat) * 10 + 1 / 2\<rfloor> = 1"
    by (rule floor_unique) simp_all
  have t: "toFixed1 (Some (5404319552844595 / 36028797018963968)) = Inr ''0.1''"
    using toFixed1_digits [of "5404319552844595 / 36028797018963968"] fl
    by (simp add: showNat.simps digitChar_def)
  have c: "renderDetection \<lparr>scaleX = Some 1, scaleY = Some 1\<rparr>
       (encodeDetection \<lparr>det_name = ''pothole'',
          det_confidence = 3458764513820541 / 2305843009213693952,
          box_x1 = 10, box_y1 = 20, box_x2 = 110, box_y2 = 70\<rparr>)
     = Inr (\<lparr>style_left = Some 10, style_top = Some 20, style_width = Some 100,
              style_height = Some 50\<rparr>, ''pothole (0.1%)'')"
    using b t
    by (simp add: renderDetection_def encodeDetection_def canonicalShape_def thrown_def
        boxStyle_def jsTimes_def jsMinus_def labelText_def doubleTimes_def)
  have d: "1 / 20 < \<bar>1 / 10 - 3458764513820541 / 2305843009213693952 * (100::rat)\<bar>"
    "\<bar>2 / 10 - 3458764513820541 / 2305843009213693952 * (100::rat)\<bar> < 1 / 20"
    by simp_all
  from a c d show ?thesis by blast
qed

text \<open>
  C8, amended. For a confidence between 0 and 1 the label of a detection is its name,
  then in parentheses the double product \<open>confidence * 100\<close> rounded to one decimal and
  a percent sign: the numeral printed is \<open>n div 10\<close>, a point, the digit \<open>n mod 10\<close>,
  where \<open>n / 10\<close> is within \<open>1 / 20\<close> of the double \<open>p\<close> that the multiplication yields,
  and \<open>p\<close> is within \<open>2^(-47)\<close> of the exact product. The confidence \<open>0.8567\<close>, held
  as the double nearest to it, is shown as \<open>85.7%\<close>.
\<close>

theorem label_text:
  assumes "0 \<le> det_confidence d" and "det_confidence d \<le> 1"
  shows "(\<exists>p n style. roundDouble (det_confidence d * 100) = Some p
      \<and> \<bar>p - det_confidence d * 100\<bar> \<le> 1 / 2 ^ 47
      \<and> \<bar>of_nat n / 10 - p\<bar> \<le> 1 / 20
      \<and> renderDetection sf (encodeDetection d)
          = Inr (style, det_name d @ '' ('' @ showNat (n div 10) @ ''.'' @ showNat (n mod 10) @ ''%)''))
    \<and> roundDouble (8567 / 10000) = Some (241139612548019 / 281474976710656)
    \<and> (det_confidence d = 241139612548019 / 281474976710656 \<longrightarrow>
        (\<exists>style. renderDetection sf (encodeDetection d) = Inr (style, det_name d @ '' (85.7%)'')))"
proof -
  from renderDetection_label [OF assms, of sf] obtain p style where
    p: "roundDouble (det_confidence d * 100) = Some p"
      "\<bar>p - det_confidence d * 100\<bar> \<le> 1 / 2 ^ 47"
      "\<bar>of_nat (nat \<lfloor>p * 10 + 1 / 2\<rfloor>) / 10 - p\<bar> \<le> 1 / 20"
    and r: "renderDetection sf (encodeDetection d) =
     Inr (style,
          det_name d @ '' ('' @ showNat (nat \<lfloor>p * 10 + 1 / 2\<rfloor> div 10) @ ''.''
             @ showNat (nat \<lfloor>p * 10 + 1 / 2\<rfloor> mod 10) @ ''%)'')"
    by blast
  then have general: "\<exists>p n style. roundDouble (det_confidence d * 100) = Some p
      \<and> \<bar>p - det_confidence d * 100\<bar> \<le> 1 / 2 ^ 47
      \<and> \<bar>of_nat n / 10 - p\<bar> \<le> 1 / 20
      \<and> renderDetection sf (encodeDetection d)
          = Inr (style, det_name d @ '' ('' @ showNat (n div 10) @ ''.'' @ showNat (n mod 10) @ ''%)'')"
    by blast
  have digits: "showNat 85 = ''85''" "showNat 7 = ''7''"
    by (simp_all add: showNat.simps digitChar_def)
  have fl: "\<lfloor>(6028490313700475 / 70368744177664 :: rat) * 10 + 1 / 2\<rfloor> = 857"
    by (rule floor_unique) simp_all
  have "\<exists>style. renderDetection sf (encodeDetection d) = Inr (style, det_name d @ '' (85.7%)'')"
    if c: "det_confidence d = 241139612548019 / 281474976710656"
  proof -
    from p(1) c product_of_8567 have "p = 6028490313700475 / 70368744177664" by simp
    with r fl digits show ?thesis by simp
  qed
  with general double_of_8567 show ?thesis by blast
qed

theorem label_text_witness:
  "\<exists>style. renderDetection \<lparr>scaleX = Some 1, scaleY = Some 1\<rparr>
     (encodeDetection \<lparr>det_name = ''pothole'', det_confidence = 241139612548019 / 281474976710656,
        box_x1 = 10, box_y1 = 20, box_x2 = 110, box_y2 = 70\<rparr>) = Inr (style, ''pothole (85.7%)'')"
  using label_text [of "\<lparr>det_name = ''pothole'', det_confidence = 241139612548019 / 281474976710656,
        box_x1 = 10, box_y1 = 20, box_x2 = 110, box_y2 = 70\<rparr>" "\<lparr>scaleX = Some 1, scaleY = Some 1\<rparr>"]
  by simp

end
